theory Spec2Isabelle
  imports Complex_Main "HOL-Library.Sublist"
begin

section \<open>Text\<close>

text \<open>
  A Python \<open>str\<close> is a sequence of Unicode code points, so a text is a list of
  natural numbers: \<open>len\<close> is \<open>length\<close>, slicing is \<open>take\<close>/\<open>drop\<close>. ASCII
  literals are written through \<open>asc\<close>; Hangul and symbol literals are written as
  their code points.
\<close>

type_synonym ustr = "nat list"

definition asc :: "string \<Rightarrow> ustr" where
  "asc s = map of_char s"

text \<open>\<open>needle in hay\<close> on strings: \<open>needle\<close> occurs as a contiguous slice.\<close>

fun starts_with :: "ustr \<Rightarrow> ustr \<Rightarrow> bool" where
  "starts_with [] hay = True"
| "starts_with (n # ns) [] = False"
| "starts_with (n # ns) (h # hs) = (n = h \<and> starts_with ns hs)"

fun str_in :: "ustr \<Rightarrow> ustr \<Rightarrow> bool" where
  "str_in needle [] = (needle = [])"
| "str_in needle (h # hs) = (starts_with needle (h # hs) \<or> str_in needle hs)"

text \<open>\<open>sep.join(parts)\<close>.\<close>

fun join :: "ustr \<Rightarrow> ustr list \<Rightarrow> ustr" where
  "join sep [] = []"
| "join sep [p] = p"
| "join sep (p # q # ps) = p @ sep @ join sep (q # ps)"

subsection \<open>The interpreter's Unicode tables\<close>

text \<open>
  \<open>str.lower\<close> and the classes \<open>\w\<close> and \<open>\s\<close> of \<open>re\<close> consult the
  Unicode database of the interpreter for code points beyond ASCII. The database is not
  part of the repository; it is a parameter of every function that depends on it, and
  the theorems hold for each database.

  On ASCII the three are fixed: \<open>lower\<close> maps \<open>A\<close>..\<open>Z\<close> to \<open>a\<close>..\<open>z\<close>,
  \<open>\w\<close> is \<open>[a-zA-Z0-9_]\<close>, and \<open>\s\<close> is the characters 9..13, 28..32.
  The Hangul syllables U+AC00..U+D7A3 are caseless letters: \<open>lower\<close> leaves them as
  they are. Lower-casing another code point may depend on its neighbours (the final sigma)
  and may yield several code points, so the database is asked with the text before and
  after.
\<close>

record ucd =
  u_alnum :: "nat \<Rightarrow> bool"
  u_space :: "nat \<Rightarrow> bool"
  u_lower :: "ustr \<Rightarrow> nat \<Rightarrow> ustr \<Rightarrow> ustr"

definition ascii_ucd :: ucd where
  "ascii_ucd = \<lparr>u_alnum = (\<lambda>c. False), u_space = (\<lambda>c. False), u_lower = (\<lambda>before c after. [c])\<rparr>"

definition is_hangul :: "nat \<Rightarrow> bool" where
  "is_hangul c = (0xAC00 \<le> c \<and> c \<le> 0xD7A3)"

definition lower_at :: "ucd \<Rightarrow> ustr \<Rightarrow> nat \<Rightarrow> ustr \<Rightarrow> ustr" where
  "lower_at U before c after =
     (if 65 \<le> c \<and> c \<le> 90 then [c + 32]
      else if c < 128 \<or> is_hangul c then [c]
      else u_lower U before c after)"

fun lower_from :: "ucd \<Rightarrow> ustr \<Rightarrow> ustr \<Rightarrow> ustr" where
  "lower_from U before [] = []"
| "lower_from U before (c # cs) = lower_at U before c cs @ lower_from U (before @ [c]) cs"

definition lower :: "ucd \<Rightarrow> ustr \<Rightarrow> ustr" where
  "lower U s = lower_from U [] s"

definition is_word :: "ucd \<Rightarrow> nat \<Rightarrow> bool" where
  "is_word U c =
     (if c < 128 then (48 \<le> c \<and> c \<le> 57) \<or> (65 \<le> c \<and> c \<le> 90) \<or> (97 \<le> c \<and> c \<le> 122) \<or> c = 95
      else u_alnum U c)"

definition is_space :: "ucd \<Rightarrow> nat \<Rightarrow> bool" where
  "is_space U c =
     (if c < 128 then (9 \<le> c \<and> c \<le> 13) \<or> (28 \<le> c \<and> c \<le> 32)
      else u_space U c)"

section \<open>Regular expressions as \<open>re\<close> runs them\<close>

text \<open>
  The patterns of \<open>ai_service.py\<close> use literals, the classes \<open>\w\<close>, \<open>\s\<close>,
  \<open>.\<close> (under \<open>re.DOTALL\<close>: every character), bracket sets and negated bracket sets,
  the greedy quantifiers \<open>+\<close> and \<open>*\<close> and the lazy \<open>*?\<close> on a single class,
  an optional group, alternation and capture groups.

  \<open>re\<close> is a backtracking matcher: at a position it explores the alternatives in a
  fixed order (a greedy quantifier the longest run first, a lazy one the shortest first,
  \<open>r?\<close> first with \<open>r\<close>, \<open>a|b\<close> first \<open>a\<close>) and returns the first that lets
  the whole pattern match. \<open>matches\<close> lists the outcomes at a position in that order,
  each with the captures and the text that remains; the head of the list is the match.
\<close>

datatype citem = One nat | Rng nat nat

datatype cclass = Word | Space | AnyChar | Chars "citem list" | NotChars "citem list"

datatype rx =
    Lit nat
  | Cls cclass
  | Plus cclass
  | Star cclass
  | LazyStar cclass
  | Opt rx
  | Group nat rx
  | Seq rx rx
  | Alt rx rx

type_synonym caps = "nat \<rightharpoonup> ustr"

fun in_item :: "nat \<Rightarrow> citem \<Rightarrow> bool" where
  "in_item c (One d) = (c = d)"
| "in_item c (Rng lo hi) = (lo \<le> c \<and> c \<le> hi)"

fun in_class :: "ucd \<Rightarrow> cclass \<Rightarrow> nat \<Rightarrow> bool" where
  "in_class U Word c = is_word U c"
| "in_class U Space c = is_space U c"
| "in_class U AnyChar c = True"
| "in_class U (Chars items) c = list_ex (in_item c) items"
| "in_class U (NotChars items) c = (\<not> list_ex (in_item c) items)"

text \<open>
  The suffixes left after a run of \<open>k\<close> characters of the class, for every \<open>k\<close> from
  \<open>lo\<close> up to the longest run, shortest run first.
\<close>

fun runs :: "(nat \<Rightarrow> bool) \<Rightarrow> nat \<Rightarrow> ustr \<Rightarrow> ustr list" where
  "runs p 0 [] = [[]]"
| "runs p (Suc lo) [] = []"
| "runs p 0 (c # cs) = (c # cs) # (if p c then runs p 0 cs else [])"
| "runs p (Suc lo) (c # cs) = (if p c then runs p lo cs else [])"

fun matches :: "ucd \<Rightarrow> rx \<Rightarrow> caps \<times> ustr \<Rightarrow> (caps \<times> ustr) list" where
  "matches U (Lit d) (g, s) = (case s of [] \<Rightarrow> [] | c # cs \<Rightarrow> if c = d then [(g, cs)] else [])"
| "matches U (Cls k) (g, s) =
     (case s of [] \<Rightarrow> [] | c # cs \<Rightarrow> if in_class U k c then [(g, cs)] else [])"
| "matches U (Plus k) (g, s) = map (Pair g) (rev (runs (in_class U k) 1 s))"
| "matches U (Star k) (g, s) = map (Pair g) (rev (runs (in_class U k) 0 s))"
| "matches U (LazyStar k) (g, s) = map (Pair g) (runs (in_class U k) 0 s)"
| "matches U (Opt r) (g, s) = matches U r (g, s) @ [(g, s)]"
| "matches U (Group n r) (g, s) =
     map (\<lambda>(g', rest). (g'(n \<mapsto> take (length s - length rest) s), rest)) (matches U r (g, s))"
| "matches U (Seq r1 r2) (g, s) = concat (map (matches U r2) (matches U r1 (g, s)))"
| "matches U (Alt r1 r2) (g, s) = matches U r1 (g, s) @ matches U r2 (g, s)"

text \<open>
  \<open>re.sub(pattern, repl, s)\<close>: scan from the left; where the pattern matches, emit the
  replacement and go on behind the match; elsewhere copy one character. An empty match
  emits the replacement and copies the next character.
\<close>

function re_sub :: "ucd \<Rightarrow> rx \<Rightarrow> (caps \<Rightarrow> ustr) \<Rightarrow> ustr \<Rightarrow> ustr" where
  "re_sub U r repl s =
     (case matches U r (Map.empty, s) of
        [] \<Rightarrow> (case s of [] \<Rightarrow> [] | c # cs \<Rightarrow> c # re_sub U r repl cs)
      | (g, rest) # others \<Rightarrow>
          if length rest < length s then repl g @ re_sub U r repl rest
          else repl g @ (case s of [] \<Rightarrow> [] | c # cs \<Rightarrow> c # re_sub U r repl cs))"
  by pat_completeness auto
termination
  by (relation "measure (\<lambda>(U, r, repl, s). length s)") auto

text \<open>
  A group reference in a replacement template (\<open>\1\<close>) and \<open>match.group(n)\<close>: a group
  that took no part in the match expands to the empty string in a template and is
  \<open>None\<close> for \<open>group\<close>.
\<close>

definition group_ref :: "caps \<Rightarrow> nat \<Rightarrow> ustr" where
  "group_ref g n = (case g n of None \<Rightarrow> [] | Some t \<Rightarrow> t)"

section \<open>Category formatters (\<open>CategorySpecialization\<close>)\<close>

abbreviation ch :: "char \<Rightarrow> nat" where
  "ch c \<equiv> of_char c"

text \<open>Right-nested concatenation and alternation of several patterns.\<close>

fun seqs :: "rx \<Rightarrow> rx list \<Rightarrow> rx" where
  "seqs r [] = r"
| "seqs r (q # qs) = Seq r (seqs q qs)"

fun alts :: "rx \<Rightarrow> rx list \<Rightarrow> rx" where
  "alts r [] = r"
| "alts r (q # qs) = Alt r (alts q qs)"

subsection \<open>\<open>format_math_answer\<close>\<close>

text \<open>The pattern \<^verbatim>\<open>(\w+)\*\*(\w+)\<close> and its template \<^verbatim>\<open>$\1^{\2}$\<close>.\<close>

definition exponent_pattern :: rx where
  "exponent_pattern =
     seqs (Group 1 (Plus Word)) [Lit (ch CHR ''*''), Lit (ch CHR ''*''), Group 2 (Plus Word)]"

definition exponent_repl :: "caps \<Rightarrow> ustr" where
  "exponent_repl g = asc ''$'' @ group_ref g 1 @ asc ''^{'' @ group_ref g 2 @ asc ''}$''"

text \<open>The set \<^verbatim>\<open>[+\-*/=]\<close> and the letter and digit sets.\<close>

definition operator_set :: cclass where
  "operator_set = Chars [One (ch CHR ''+''), One (ch CHR ''-''), One (ch CHR ''*''),
                         One (ch CHR ''/''), One (ch CHR ''='')]"

definition letter_set :: cclass where
  "letter_set = Chars [Rng (ch CHR ''a'') (ch CHR ''z''), Rng (ch CHR ''A'') (ch CHR ''Z'')]"

definition alnum_set :: cclass where
  "alnum_set = Chars [Rng (ch CHR ''a'') (ch CHR ''z''), Rng (ch CHR ''A'') (ch CHR ''Z''),
                      Rng (ch CHR ''0'') (ch CHR ''9'')]"

definition digit_set :: cclass where
  "digit_set = Chars [Rng (ch CHR ''0'') (ch CHR ''9'')]"

text \<open>
  The seventeen glyphs of the third pattern, in the order of the source: integral, sum,
  product, root, infinity, then the Greek letters pi, alpha, beta, gamma, delta, theta,
  lambda, mu, sigma, phi, psi, omega.
\<close>

definition glyphs :: "nat list" where
  "glyphs = [0x222B, 0x2211, 0x220F, 0x221A, 0x221E, 0x3C0, 0x3B1, 0x3B2, 0x3B3, 0x3B4,
             0x3B8, 0x3BB, 0x3BC, 0x3C3, 0x3C6, 0x3C8, 0x3C9]"

text \<open>
  \<open>math_patterns\<close>:
  \<^verbatim>\<open>([a-zA-Z]\s*[+\-*/=]\s*[a-zA-Z0-9]+)\<close>,
  \<^verbatim>\<open>([0-9]+\s*[+\-*/=]\s*[0-9]+)\<close> and the alternation of the glyphs, each in
  group 1; the template of all three is \<^verbatim>\<open>$\1$\<close>.
\<close>

definition math_patterns :: "rx list" where
  "math_patterns =
     [Group 1 (seqs (Cls letter_set) [Star Space, Cls operator_set, Star Space, Plus alnum_set]),
      Group 1 (seqs (Plus digit_set) [Star Space, Cls operator_set, Star Space, Plus digit_set]),
      Group 1 (alts (Lit (hd glyphs)) (map Lit (tl glyphs)))]"

definition dollar_repl :: "caps \<Rightarrow> ustr" where
  "dollar_repl g = asc ''$'' @ group_ref g 1 @ asc ''$''"

definition format_math_answer :: "ucd \<Rightarrow> ustr \<Rightarrow> ustr" where
  "format_math_answer U answer =
     foldl (\<lambda>formatted pattern. re_sub U pattern dollar_repl formatted)
       (re_sub U exponent_pattern exponent_repl answer) math_patterns"

subsection \<open>\<open>format_code_answer\<close>\<close>

text \<open>
  \<open>code_pattern\<close> is \<^verbatim>\<open>```(\w+)?\n(.*?)\n```\<close> under \<open>re.DOTALL\<close>;
  \<open>replace_code\<close> takes the language from group 1, or the default when group 1 is
  \<open>None\<close> or empty. The second pass rewrites \<^verbatim>\<open>`([^`]+)`\<close> into
  \<^verbatim>\<open><code>\1</code>\<close>.
\<close>

definition tick :: nat where
  "tick = ch CHR 0x60"

definition newline :: nat where
  "newline = 10"

definition code_pattern :: rx where
  "code_pattern =
     seqs (Lit tick) [Lit tick, Lit tick, Opt (Group 1 (Plus Word)), Lit newline,
                      Group 2 (LazyStar AnyChar), Lit newline, Lit tick, Lit tick, Lit tick]"

definition replace_code :: "ustr \<Rightarrow> caps \<Rightarrow> ustr" where
  "replace_code language g =
     (let lang = (case g 1 of None \<Rightarrow> language | Some t \<Rightarrow> if t = [] then language else t);
          code = group_ref g 2
      in [tick, tick, tick] @ lang @ [newline] @ code @ [newline] @ [tick, tick, tick])"

definition inline_pattern :: rx where
  "inline_pattern = seqs (Lit tick) [Group 1 (Plus (NotChars [One tick])), Lit tick]"

definition inline_repl :: "caps \<Rightarrow> ustr" where
  "inline_repl g = asc ''<code>'' @ group_ref g 1 @ asc ''</code>''"

definition format_code_answer :: "ucd \<Rightarrow> ustr \<Rightarrow> ustr \<Rightarrow> ustr" where
  "format_code_answer U answer language =
     re_sub U inline_pattern inline_repl (re_sub U code_pattern (replace_code language) answer)"

section \<open>Category classifier (\<open>RAGService.classify_question_category\<close>)\<close>

text \<open>
  The category labels, in the order of the branches of the classifier: mathematics,
  science, programming, Korean, English, and the default label "general".
\<close>

definition cat_math :: ustr where
  "cat_math =
     [0xC218, 0xD559]"

definition cat_science :: ustr where
  "cat_science =
     [0xACFC, 0xD559]"

definition cat_programming :: ustr where
  "cat_programming =
     [0xD504, 0xB85C, 0xADF8, 0xB798, 0xBC0D]"

definition cat_korean :: ustr where
  "cat_korean =
     [0xAD6D, 0xC5B4]"

definition cat_english :: ustr where
  "cat_english =
     [0xC601, 0xC5B4]"

definition cat_general :: ustr where
  "cat_general =
     [0xC77C, 0xBC18]"

text \<open>
  The five keyword lists of the source. All keywords are Hangul; the keyword
  U+BB38 U+BC95 (grammar) is in both the Korean and the English list.
\<close>

definition math_keywords :: "ustr list" where
  "math_keywords =
     [[0xC218, 0xD559],
      [0xACC4, 0xC0B0],
      [0xACF5, 0xC2DD],
      [0xBC29, 0xC815, 0xC2DD],
      [0xD568, 0xC218],
      [0xBBF8, 0xBD84],
      [0xC801, 0xBD84],
      [0xAE30, 0xD558],
      [0xB300, 0xC218]]"

definition science_keywords :: "ustr list" where
  "science_keywords =
     [[0xACFC, 0xD559],
      [0xBB3C, 0xB9AC],
      [0xD654, 0xD559],
      [0xC0DD, 0xBB3C],
      [0xC2E4, 0xD5D8],
      [0xC6D0, 0xB9AC],
      [0xBC95, 0xCE59]]"

definition programming_keywords :: "ustr list" where
  "programming_keywords =
     [[0xD504, 0xB85C, 0xADF8, 0xB798, 0xBC0D],
      [0xCF54, 0xB529],
      [0xD30C, 0xC774, 0xC36C],
      [0xC790, 0xBC14, 0xC2A4, 0xD06C, 0xB9BD, 0xD2B8],
      [0xC54C, 0xACE0, 0xB9AC, 0xC998],
      [0xB370, 0xC774, 0xD130, 0xBCA0, 0xC774, 0xC2A4]]"

definition korean_keywords :: "ustr list" where
  "korean_keywords =
     [[0xAD6D, 0xC5B4],
      [0xBB38, 0xBC95],
      [0xB9DE, 0xCDA4, 0xBC95],
      [0xBB38, 0xD559],
      [0xC791, 0xBB38]]"

definition english_keywords :: "ustr list" where
  "english_keywords =
     [[0xC601, 0xC5B4],
      [0xBB38, 0xBC95],
      [0xB2E8, 0xC5B4],
      [0xB3C5, 0xD574],
      [0xD68C, 0xD654]]"

text \<open>\<open>any(keyword in question_lower for keyword in keywords)\<close>.\<close>

definition any_keyword :: "ustr list \<Rightarrow> ustr \<Rightarrow> bool" where
  "any_keyword keywords question_lower = list_ex (\<lambda>keyword. str_in keyword question_lower) keywords"

definition classify_question_category :: "ucd \<Rightarrow> ustr \<Rightarrow> ustr" where
  "classify_question_category U question =
     (let question_lower = lower U question in
      if any_keyword math_keywords question_lower then cat_math
      else if any_keyword science_keywords question_lower then cat_science
      else if any_keyword programming_keywords question_lower then cat_programming
      else if any_keyword korean_keywords question_lower then cat_korean
      else if any_keyword english_keywords question_lower then cat_english
      else cat_general)"

text \<open>
  The classifier as the specification words it: a fixed ordered list of pairs of a
  category and its keyword list; the first pair with a keyword in the lower-cased question
  gives the category, and the default is "general".
\<close>

definition category_table :: "(ustr \<times> ustr list) list" where
  "category_table =
     [(cat_math, math_keywords), (cat_science, science_keywords),
      (cat_programming, programming_keywords), (cat_korean, korean_keywords),
      (cat_english, english_keywords)]"

definition classify_spec :: "ucd \<Rightarrow> ustr \<Rightarrow> ustr" where
  "classify_spec U question =
     (case find (\<lambda>(category, keywords). any_keyword keywords (lower U question)) category_table of
        None \<Rightarrow> cat_general
      | Some (category, keywords) \<Rightarrow> category)"

section \<open>The question store (\<open>QADatabase\<close>) and the retriever\<close>

text \<open>
  \<open>QAEntry\<close> and the dictionary that \<open>search_relevant_qa\<close> builds from it share
  field names with each other and with \<open>AIResponse\<close>; the fields of the first two
  carry a prefix. \<open>QADatabase.data\<close> is a dictionary from the entry id to the entry;
  \<open>data.values()\<close> runs through it in insertion order, so it is an association list.
\<close>

record QAEntry =
  qa_id :: ustr
  qa_question :: ustr
  qa_answer :: ustr
  qa_category :: ustr
  qa_created_at :: ustr
  qa_updated_at :: ustr
  qa_tags :: "ustr list"

record QADatabase =
  db_file :: ustr
  data :: "(ustr \<times> QAEntry) list"

record ContextItem =
  ctx_question :: ustr
  ctx_answer :: ustr
  ctx_category :: ustr
  ctx_tags :: "ustr list"

text \<open>
  \<open>QADatabase.search_qa\<close>: the entries, in the order of the store, whose question,
  answer or one of whose tags contains the lower-cased query, and whose category equals
  the wanted one up to case when a category is given (\<open>None\<close>: no filter).
\<close>

definition search_qa :: "ucd \<Rightarrow> QADatabase \<Rightarrow> ustr \<Rightarrow> ustr option \<Rightarrow> QAEntry list" where
  "search_qa U db query category =
     (let query_lower = lower U query in
      filter (\<lambda>entry.
          (str_in query_lower (lower U (qa_question entry)) \<or>
           str_in query_lower (lower U (qa_answer entry)) \<or>
           list_ex (\<lambda>tag. str_in query_lower (lower U tag)) (qa_tags entry)) \<and>
          (case category of None \<Rightarrow> True
           | Some c \<Rightarrow> lower U (qa_category entry) = lower U c))
        (map snd (data db)))"

text \<open>
  The service object. \<open>qa_database\<close> is \<open>None\<close> or a store (an object without
  \<open>__bool__\<close> or \<open>__len__\<close>, so it is true in a condition); a key is \<open>None\<close>
  when the environment variable is unset.
\<close>

record RAGService =
  qa_database :: "QADatabase option"
  openai_api_key :: "ustr option"
  claude_api_key :: "ustr option"

definition search_relevant_qa :: "ucd \<Rightarrow> RAGService \<Rightarrow> ustr \<Rightarrow> ustr option \<Rightarrow> ContextItem list" where
  "search_relevant_qa U svc question category =
     (case qa_database svc of
        None \<Rightarrow> []
      | Some db \<Rightarrow>
          map (\<lambda>entry. \<lparr>ctx_question = qa_question entry, ctx_answer = qa_answer entry,
                         ctx_category = qa_category entry, ctx_tags = qa_tags entry\<rparr>)
            (take 3 (search_qa U db question category)))"

section \<open>Answer generator (\<open>RAGService.generate_ai_answer\<close>)\<close>

text \<open>
  The fields of \<open>AIResponse\<close> carry the prefix \<open>r_\<close>. \<open>confidence\<close> is a
  float literal that the code passes through without arithmetic; it is the rational
  number the literal denotes.
\<close>

record AIResponse =
  r_answer :: ustr
  r_confidence :: rat
  r_category :: ustr
  r_sources :: "ustr list"
  r_reasoning :: ustr

subsection \<open>The prompt\<close>

text \<open>\<open>str(i)\<close> for an index of \<open>enumerate\<close>: the decimal digits.\<close>

function str_of_nat :: "nat \<Rightarrow> ustr" where
  "str_of_nat n = (if n < 10 then [48 + n] else str_of_nat (n div 10) @ [48 + n mod 10])"
  by pat_completeness auto
termination
  by (relation "measure id") auto

text \<open>
  The pieces of the f-strings: the header of the context block (two newlines, "related
  information:", newline), the labels "question: " and "category: " of the base prompt,
  its closing request to answer in Korean, and the guideline blocks for mathematics,
  science and programming (each begins with the blank line that follows the base prompt).
\<close>

definition context_header :: ustr where
  "context_header =
     [0xA, 0xA, 0xAD00, 0xB828, 0x20, 0xC815, 0xBCF4, 0x3A, 0xA]"

definition prompt_question_label :: ustr where
  "prompt_question_label =
     [0xC9C8, 0xBB38, 0x3A, 0x20]"

definition prompt_category_label :: ustr where
  "prompt_category_label =
     [0xA, 0xCE74, 0xD14C, 0xACE0, 0xB9AC, 0x3A, 0x20]"

definition prompt_request :: ustr where
  "prompt_request =
     [0xA, 0xA, 0xC704, 0x20, 0xC815, 0xBCF4, 0xB97C, 0x20, 0xCC38, 0xACE0, 0xD558, 0xC5EC,
      0x20, 0xC9C8, 0xBB38, 0xC5D0, 0x20, 0xB300, 0xD55C, 0x20, 0xC804, 0xBB38, 0xC801,
      0xC774, 0xACE0, 0x20, 0xC815, 0xD655, 0xD55C, 0x20, 0xB2F5, 0xBCC0, 0xC744, 0x20,
      0xD55C, 0xAD6D, 0xC5B4, 0xB85C, 0x20, 0xC791, 0xC131, 0xD574, 0xC8FC, 0xC138, 0xC694,
      0x2E]"

definition math_guidelines :: ustr where
  "math_guidelines =
     [0xA, 0xA, 0xC218, 0xD559, 0x20, 0xB2F5, 0xBCC0, 0x20, 0xAC00, 0xC774, 0xB4DC, 0xB77C,
      0xC778, 0x3A, 0xA, 0x2D, 0x20, 0xACF5, 0xC2DD, 0xC774, 0xB098, 0x20, 0xC218, 0xC2DD,
      0xC774, 0x20, 0xD3EC, 0xD568, 0xB41C, 0x20, 0xACBD, 0xC6B0, 0x20, 0x4C, 0x61, 0x54,
      0x65, 0x58, 0x20, 0xD615, 0xC2DD, 0xC73C, 0xB85C, 0x20, 0xC791, 0xC131, 0x20, 0x28,
      0xC608, 0x3A, 0x20, 0x24, 0x78, 0x5E, 0x32, 0x20, 0x2B, 0x20, 0x79, 0x5E, 0x32, 0x20,
      0x3D, 0x20, 0x72, 0x5E, 0x32, 0x24, 0x29, 0xA, 0x2D, 0x20, 0xB2E8, 0xACC4, 0xBCC4,
      0xB85C, 0x20, 0xD480, 0xC774, 0x20, 0xACFC, 0xC815, 0xC744, 0x20, 0xBA85, 0xD655,
      0xD788, 0x20, 0xC124, 0xBA85, 0xA, 0x2D, 0x20, 0xD544, 0xC694, 0xC2DC, 0x20, 0xADF8,
      0xB798, 0xD504, 0xB098, 0x20, 0xB3C4, 0xD615, 0x20, 0xC124, 0xBA85, 0x20, 0xD3EC,
      0xD568, 0xA, 0x2D, 0x20, 0xACB0, 0xACFC, 0x20, 0xAC80, 0xC99D, 0x20, 0xBC29, 0xBC95,
      0x20, 0xC81C, 0xC2DC]"

definition science_guidelines :: ustr where
  "science_guidelines =
     [0xA, 0xA, 0xACFC, 0xD559, 0x20, 0xB2F5, 0xBCC0, 0x20, 0xAC00, 0xC774, 0xB4DC, 0xB77C,
      0xC778, 0x3A, 0xA, 0x2D, 0x20, 0xACFC, 0xD559, 0xC801, 0x20, 0xC6D0, 0xB9AC, 0xC640,
      0x20, 0xBC95, 0xCE59, 0xC744, 0x20, 0xBA85, 0xD655, 0xD788, 0x20, 0xC124, 0xBA85, 0xA,
      0x2D, 0x20, 0xC2E4, 0xD5D8, 0xC774, 0xB098, 0x20, 0xAD00, 0xCC30, 0x20, 0xC0AC, 0xB840,
      0x20, 0xD3EC, 0xD568, 0xA, 0x2D, 0x20, 0xAD00, 0xB828, 0x20, 0xACF5, 0xC2DD, 0xC774,
      0xB098, 0x20, 0xD654, 0xD559, 0xC2DD, 0x20, 0xC81C, 0xC2DC, 0xA, 0x2D, 0x20, 0xC2E4,
      0xC0DD, 0xD65C, 0x20, 0xC751, 0xC6A9, 0x20, 0xC0AC, 0xB840, 0x20, 0xC5B8, 0xAE09]"

definition programming_guidelines :: ustr where
  "programming_guidelines =
     [0xA, 0xA, 0xD504, 0xB85C, 0xADF8, 0xB798, 0xBC0D, 0x20, 0xB2F5, 0xBCC0, 0x20, 0xAC00,
      0xC774, 0xB4DC, 0xB77C, 0xC778, 0x3A, 0xA, 0x2D, 0x20, 0xCF54, 0xB4DC, 0x20, 0xC608,
      0xC2DC, 0xB97C, 0x20, 0xD3EC, 0xD568, 0xD558, 0xC5EC, 0x20, 0xC124, 0xBA85, 0xA, 0x2D,
      0x20, 0xAC01, 0x20, 0xB2E8, 0xACC4, 0xBCC4, 0x20, 0xC8FC, 0xC11D, 0xACFC, 0x20, 0xC124,
      0xBA85, 0xA, 0x2D, 0x20, 0xC2E4, 0xD589, 0x20, 0xACB0, 0xACFC, 0xB098, 0x20, 0xCD9C,
      0xB825, 0x20, 0xC608, 0xC2DC, 0xA, 0x2D, 0x20, 0xCD5C, 0xC801, 0xD654, 0xB098, 0x20,
      0xB300, 0xC548, 0x20, 0xBC29, 0xBC95, 0x20, 0xC81C, 0xC2DC]"

text \<open>
  The lines that \<open>generate_ai_answer\<close> appends to \<open>context_text\<close>, numbered from
  \<open>i\<close>: \<^verbatim>\<open>f"{i}. Q: {item['question']}\n   A: {item['answer']}\n"\<close>.
\<close>

fun context_lines :: "nat \<Rightarrow> ContextItem list \<Rightarrow> ustr" where
  "context_lines i [] = []"
| "context_lines i (item # items) =
     str_of_nat i @ asc ''. Q: '' @ ctx_question item @ [newline] @ asc ''   A: '' @
     ctx_answer item @ [newline] @ context_lines (Suc i) items"

definition create_category_prompt :: "ustr \<Rightarrow> ustr \<Rightarrow> ustr \<Rightarrow> ustr" where
  "create_category_prompt question category context =
     (let base_prompt = prompt_question_label @ question @ prompt_category_label @ category @
                        [newline, newline] @ context @ prompt_request in
      if category = cat_math then base_prompt @ math_guidelines
      else if category = cat_science then base_prompt @ science_guidelines
      else if category = cat_programming then base_prompt @ programming_guidelines
      else base_prompt)"

subsection \<open>The providers\<close>

text \<open>
  A provider call is \<open>client.post\<close> of an HTTP client. Before anything is sent the
  client builds the request and encodes every header value as ASCII: a value that is not
  a string, or one with a code point beyond 127, raises there and no request is made.
  The OpenAI call sends the key in \<^verbatim>\<open>f"Bearer {self.openai_api_key}"\<close>, the Claude call
  sends \<open>self.claude_api_key\<close> itself.

  What happens then is decided outside the program: the client raises before a request
  goes out (\<open>NotSent\<close>: the client cannot be set up or the request cannot be built), the
  request fails in transport (connection error, timeout after 30 seconds), or a response
  arrives with a status code and a body. Of the body the code reads one text, at
  \<open>['choices'][0]['message']['content']\<close> for OpenAI and at \<open>['content'][0]['text']\<close>
  for Claude; the body is \<open>None\<close> when it is not JSON, lacks that path or holds no
  string there, and each of these raises. The outcome of each provider is a function of
  the prompt. The log \<open>requests\<close> holds the requests that went out, in order.
\<close>

datatype provider = OpenAI | Claude

datatype http_result = NotSent | TransportFailure | Response nat "ustr option"

datatype py_exception =
  HeaderError provider | HttpxError provider | ApiError provider nat | BodyError provider

record network =
  post_openai :: "ustr \<Rightarrow> http_result"
  post_claude :: "ustr \<Rightarrow> http_result"
  requests :: "provider list"

definition header_value_ok :: "ustr \<Rightarrow> bool" where
  "header_value_ok v = list_all (\<lambda>c. c < 128) v"

text \<open>The value of the \<open>Authorization\<close> header; \<open>str(None)\<close> is \<open>None\<close>.\<close>

definition authorization :: "ustr option \<Rightarrow> ustr" where
  "authorization key = asc ''Bearer '' @ (case key of None \<Rightarrow> asc ''None'' | Some k \<Rightarrow> k)"

text \<open>The value of the \<open>x-api-key\<close> header is the key; \<open>None\<close> is not a string.\<close>

definition x_api_key_ok :: "ustr option \<Rightarrow> bool" where
  "x_api_key_ok key = (case key of None \<Rightarrow> False | Some k \<Rightarrow> header_value_ok k)"

text \<open>
  The reasoning strings: "answer using OpenAI GPT-4", "answer using Claude AI" and
  "answer from the basic template (no AI service used)".
\<close>

definition openai_reasoning :: ustr where
  "openai_reasoning =
     [0x4F, 0x70, 0x65, 0x6E, 0x41, 0x49, 0x20, 0x47, 0x50, 0x54, 0x2D, 0x34, 0xB97C, 0x20,
      0xC0AC, 0xC6A9, 0xD55C, 0x20, 0xB2F5, 0xBCC0]"

definition claude_reasoning :: ustr where
  "claude_reasoning =
     [0x43, 0x6C, 0x61, 0x75, 0x64, 0x65, 0x20, 0x41, 0x49, 0xB97C, 0x20, 0xC0AC, 0xC6A9,
      0xD55C, 0x20, 0xB2F5, 0xBCC0]"

definition fallback_reasoning :: ustr where
  "fallback_reasoning =
     [0xAE30, 0xBCF8, 0x20, 0xD15C, 0xD50C, 0xB9BF, 0x20, 0xAE30, 0xBC18, 0x20, 0xB2F5,
      0xBCC0, 0x20, 0x28, 0x41, 0x49, 0x20, 0xC11C, 0xBE44, 0xC2A4, 0x20, 0xBBF8, 0xC0AC,
      0xC6A9, 0x29]"

definition call_openai ::
  "RAGService \<Rightarrow> network \<Rightarrow> ustr \<Rightarrow> ustr \<Rightarrow> ustr list \<Rightarrow> network \<times> (py_exception + AIResponse)" where
  "call_openai svc net prompt category srcs =
     (let net' = net\<lparr>requests := requests net @ [OpenAI]\<rparr> in
      if \<not> header_value_ok (authorization (openai_api_key svc)) then (net, Inl (HeaderError OpenAI))
      else
        case post_openai net prompt of
          NotSent \<Rightarrow> (net, Inl (HttpxError OpenAI))
        | TransportFailure \<Rightarrow> (net', Inl (HttpxError OpenAI))
        | Response status body \<Rightarrow>
            if status = 200 then
              (case body of
                 None \<Rightarrow> (net', Inl (BodyError OpenAI))
               | Some text \<Rightarrow>
                   (net', Inr \<lparr>r_answer = text, r_confidence = 9 / 10, r_category = category,
                               r_sources = srcs, r_reasoning = openai_reasoning\<rparr>))
            else (net', Inl (ApiError OpenAI status)))"

text \<open>
  \<open>_call_claude\<close> wraps the same steps in a handler that prints and raises the
  exception again.
\<close>

definition call_claude ::
  "RAGService \<Rightarrow> network \<Rightarrow> ustr \<Rightarrow> ustr \<Rightarrow> ustr list \<Rightarrow> network \<times> (py_exception + AIResponse)" where
  "call_claude svc net prompt category srcs =
     (let net' = net\<lparr>requests := requests net @ [Claude]\<rparr> in
      if \<not> x_api_key_ok (claude_api_key svc) then (net, Inl (HeaderError Claude))
      else
        case post_claude net prompt of
          NotSent \<Rightarrow> (net, Inl (HttpxError Claude))
        | TransportFailure \<Rightarrow> (net', Inl (HttpxError Claude))
        | Response status body \<Rightarrow>
            if status = 200 then
              (case body of
                 None \<Rightarrow> (net', Inl (BodyError Claude))
               | Some text \<Rightarrow>
                   (net', Inr \<lparr>r_answer = text, r_confidence = 9 / 10, r_category = category,
                               r_sources = srcs, r_reasoning = claude_reasoning\<rparr>))
            else (net', Inl (ApiError Claude status)))"

subsection \<open>The templated fallback\<close>

text \<open>
  The four template texts of \<open>fallback_responses\<close> (mathematics, science, programming,
  general) and the header of the footer (two newlines, "related questions consulted:",
  newline). The default of \<open>fallback_responses.get\<close> is the entry of the table under
  the general label, which is \<open>fallback_general\<close>.
\<close>

definition fallback_math :: ustr where
  "fallback_math =
     [0xC774, 0x20, 0xC218, 0xD559, 0x20, 0xBB38, 0xC81C, 0xB97C, 0x20, 0xD574, 0xACB0,
      0xD558, 0xAE30, 0x20, 0xC704, 0xD574, 0xC11C, 0xB294, 0x20, 0xB2E8, 0xACC4, 0xBCC4,
      0xB85C, 0x20, 0xC811, 0xADFC, 0xD574, 0xBCF4, 0xACA0, 0xC2B5, 0xB2C8, 0xB2E4, 0x2E,
      0x20, 0xC8FC, 0xC5B4, 0xC9C4, 0x20, 0xC870, 0xAC74, 0xC744, 0x20, 0xC815, 0xB9AC,
      0xD558, 0xACE0, 0x2C, 0x20, 0xAD00, 0xB828, 0x20, 0xACF5, 0xC2DD, 0xC744, 0x20, 0xC801,
      0xC6A9, 0xD574, 0xBCF4, 0xC138, 0xC694, 0x2E, 0x20, 0xAD6C, 0xCCB4, 0xC801, 0xC778,
      0x20, 0xACC4, 0xC0B0, 0x20, 0xACFC, 0xC815, 0xC774, 0x20, 0xD544, 0xC694, 0xD558,
      0xC2DC, 0xBA74, 0x20, 0xB354, 0x20, 0xC790, 0xC138, 0xD55C, 0x20, 0xC815, 0xBCF4,
      0xB97C, 0x20, 0xC81C, 0xACF5, 0xD574, 0xC8FC, 0xC138, 0xC694, 0x2E]"

definition fallback_science :: ustr where
  "fallback_science =
     [0xC774, 0x20, 0xACFC, 0xD559, 0x20, 0xC9C8, 0xBB38, 0xC5D0, 0x20, 0xB2F5, 0xD558,
      0xAE30, 0x20, 0xC704, 0xD574, 0xC11C, 0xB294, 0x20, 0xAD00, 0xB828, 0x20, 0xC6D0,
      0xB9AC, 0xC640, 0x20, 0xBC95, 0xCE59, 0xC744, 0x20, 0xC774, 0xD574, 0xD558, 0xB294,
      0x20, 0xAC83, 0xC774, 0x20, 0xC911, 0xC694, 0xD569, 0xB2C8, 0xB2E4, 0x2E, 0x20, 0xC2E4,
      0xD5D8, 0xC801, 0x20, 0xAD00, 0xCC30, 0xC774, 0xB098, 0x20, 0xC774, 0xB860, 0xC801,
      0x20, 0xBC30, 0xACBD, 0xC744, 0x20, 0xD568, 0xAED8, 0x20, 0xACE0, 0xB824, 0xD574,
      0xBCF4, 0xC2DC, 0xAE30, 0x20, 0xBC14, 0xB78D, 0xB2C8, 0xB2E4, 0x2E]"

definition fallback_programming :: ustr where
  "fallback_programming =
     [0xC774, 0x20, 0xD504, 0xB85C, 0xADF8, 0xB798, 0xBC0D, 0x20, 0xBB38, 0xC81C, 0xB97C,
      0x20, 0xD574, 0xACB0, 0xD558, 0xAE30, 0x20, 0xC704, 0xD574, 0xC11C, 0xB294, 0x20,
      0xC54C, 0xACE0, 0xB9AC, 0xC998, 0xC744, 0x20, 0xB2E8, 0xACC4, 0xBCC4, 0xB85C, 0x20,
      0xC124, 0xACC4, 0xD558, 0xACE0, 0x20, 0xAD6C, 0xD604, 0xD574, 0xC57C, 0x20, 0xD569,
      0xB2C8, 0xB2E4, 0x2E, 0x20, 0xCF54, 0xB4DC, 0x20, 0xC608, 0xC2DC, 0xC640, 0x20, 0xD568,
      0xAED8, 0x20, 0xC124, 0xBA85, 0xB4DC, 0xB9AC, 0xACA0, 0xC2B5, 0xB2C8, 0xB2E4, 0x2E]"

definition fallback_general :: ustr where
  "fallback_general =
     [0xC9C8, 0xBB38, 0xC5D0, 0x20, 0xB300, 0xD55C, 0x20, 0xB2F5, 0xBCC0, 0xC744, 0x20,
      0xC704, 0xD574, 0x20, 0xAD00, 0xB828, 0x20, 0xC815, 0xBCF4, 0xB97C, 0x20, 0xC218,
      0xC9D1, 0xD558, 0xACE0, 0x20, 0xBD84, 0xC11D, 0xD574, 0xBCF4, 0xACA0, 0xC2B5, 0xB2C8,
      0xB2E4, 0x2E, 0x20, 0xB354, 0x20, 0xAD6C, 0xCCB4, 0xC801, 0xC778, 0x20, 0xB0B4, 0xC6A9,
      0xC774, 0xB098, 0x20, 0xB9E5, 0xB77D, 0xC744, 0x20, 0xC81C, 0xACF5, 0xD574, 0xC8FC,
      0xC2DC, 0xBA74, 0x20, 0xB354, 0x20, 0xC815, 0xD655, 0xD55C, 0x20, 0xB2F5, 0xBCC0,
      0xC744, 0x20, 0xB4DC, 0xB9B4, 0x20, 0xC218, 0x20, 0xC788, 0xC2B5, 0xB2C8, 0xB2E4, 0x2E]"

definition sources_header :: ustr where
  "sources_header =
     [0xA, 0xA, 0xCC38, 0xACE0, 0xD55C, 0x20, 0xAD00, 0xB828, 0x20, 0xC9C8, 0xBB38, 0xB4E4,
      0x3A, 0xA]"

definition fallback_responses :: "ustr \<rightharpoonup> ustr" where
  "fallback_responses =
     [cat_math \<mapsto> fallback_math, cat_science \<mapsto> fallback_science,
      cat_programming \<mapsto> fallback_programming, cat_general \<mapsto> fallback_general]"

definition generate_fallback_answer :: "ustr \<Rightarrow> ustr \<Rightarrow> ustr list \<Rightarrow> AIResponse" where
  "generate_fallback_answer question category srcs =
     (let base_answer = (case fallback_responses category of
                           Some template \<Rightarrow> template
                         | None \<Rightarrow> fallback_general);
          base_answer = (if srcs \<noteq> []
                         then base_answer @ sources_header @
                              join [newline] (map (\<lambda>source. asc ''- '' @ source) (take 3 srcs))
                         else base_answer)
      in \<lparr>r_answer = base_answer, r_confidence = 6 / 10, r_category = category,
          r_sources = srcs, r_reasoning = fallback_reasoning\<rparr>)"

subsection \<open>\<open>generate_ai_answer\<close>\<close>

text \<open>
  A key is configured when the condition \<open>if self.openai_api_key\<close> holds: it is set
  and not the empty string. \<open>context\<close> may be \<open>None\<close> or a list; \<open>None\<close> and
  the empty list take the same branch of \<open>if context\<close>, so the model takes a list.

  The body of the \<open>try\<close> block yields an exception or a response; the handler
  \<open>except Exception\<close> turns every exception into the fallback answer. The result keeps
  the sum type, so that "no exception leaves the function" is a statement about it.
\<close>

definition configured :: "ustr option \<Rightarrow> bool" where
  "configured key = (case key of None \<Rightarrow> False | Some k \<Rightarrow> k \<noteq> [])"

definition generate_ai_answer ::
  "RAGService \<Rightarrow> network \<Rightarrow> ustr \<Rightarrow> ustr \<Rightarrow> ContextItem list \<Rightarrow> network \<times> (py_exception + AIResponse)" where
  "generate_ai_answer svc net question category context =
     (let context_text = (if context \<noteq> [] then context_header @ context_lines 1 context else []);
          srcs = map ctx_question context;
          prompt = create_category_prompt question category context_text;
          (net', tried) =
            (if configured (openai_api_key svc) then call_openai svc net prompt category srcs
             else if configured (claude_api_key svc) then call_claude svc net prompt category srcs
             else (net, Inr (generate_fallback_answer question category srcs)))
      in case tried of
           Inl e \<Rightarrow> (net', Inr (generate_fallback_answer question category srcs))
         | Inr response \<Rightarrow> (net', Inr response))"

section \<open>The formatting stage of \<open>ask_ai\<close>\<close>

text \<open>
  \<open>ask_ai\<close> in \<open>web_app_with_replies.py\<close> formats the generated answer by the
  category of the question; \<open>format_code_answer\<close> is called with its default language.
\<close>

definition default_language :: ustr where
  "default_language = asc ''python''"

definition ask_ai_format :: "ucd \<Rightarrow> ustr \<Rightarrow> ustr \<Rightarrow> ustr" where
  "ask_ai_format U category ai_answer =
     (if category = cat_math then format_math_answer U ai_answer
      else if category = cat_programming then format_code_answer U ai_answer default_language
      else ai_answer)"

section \<open>Notions used in the statements\<close>

text \<open>A provider call succeeds when the response has status 200 and a body with the text.\<close>

fun succeeds :: "http_result \<Rightarrow> bool" where
  "succeeds NotSent = False"
| "succeeds TransportFailure = False"
| "succeeds (Response status body) = (status = 200 \<and> body \<noteq> None)"

text \<open>The footer of the fallback answer for the questions \<open>qs\<close>.\<close>

definition related_footer :: "ustr list \<Rightarrow> ustr" where
  "related_footer qs = sources_header @ join [newline] (map (\<lambda>q. asc ''- '' @ q) qs)"

text \<open>
  The template text of a category, written out: the entry of \<open>fallback_responses\<close> for
  the four labels of the table and the general template for every other category
  (\<open>fallback_lookup\<close> below shows that this is what the lookup with default yields).
\<close>

definition fallback_template :: "ustr \<Rightarrow> ustr" where
  "fallback_template category =
     (if category = cat_math then fallback_math
      else if category = cat_science then fallback_science
      else if category = cat_programming then fallback_programming
      else fallback_general)"

text \<open>
  The lines of the footer written out: each question after a dash and a blank, the lines
  separated by a newline.
\<close>

fun footer_lines :: "ustr list \<Rightarrow> ustr" where
  "footer_lines [] = []"
| "footer_lines [q] = asc ''- '' @ q"
| "footer_lines (q # q' # qs) = asc ''- '' @ q @ [newline] @ footer_lines (q' # qs)"

text \<open>
  For a call with a prompt: a request goes out when the header value can be encoded and
  the client gets as far as sending; the call fails when the header value cannot be
  encoded or the outcome is not a success.
\<close>

definition openai_sent :: "RAGService \<Rightarrow> network \<Rightarrow> ustr \<Rightarrow> bool" where
  "openai_sent svc net prompt =
     (header_value_ok (authorization (openai_api_key svc)) \<and> post_openai net prompt \<noteq> NotSent)"

definition openai_fails :: "RAGService \<Rightarrow> network \<Rightarrow> ustr \<Rightarrow> bool" where
  "openai_fails svc net prompt =
     (\<not> header_value_ok (authorization (openai_api_key svc)) \<or> \<not> succeeds (post_openai net prompt))"

definition claude_sent :: "RAGService \<Rightarrow> network \<Rightarrow> ustr \<Rightarrow> bool" where
  "claude_sent svc net prompt =
     (x_api_key_ok (claude_api_key svc) \<and> post_claude net prompt \<noteq> NotSent)"

definition claude_fails :: "RAGService \<Rightarrow> network \<Rightarrow> ustr \<Rightarrow> bool" where
  "claude_fails svc net prompt =
     (\<not> x_api_key_ok (claude_api_key svc) \<or> \<not> succeeds (post_claude net prompt))"

text \<open>The prompt that \<open>generate_ai_answer\<close> builds and hands to the provider.\<close>

definition prompt_of :: "ustr \<Rightarrow> ustr \<Rightarrow> ContextItem list \<Rightarrow> ustr" where
  "prompt_of question category context =
     create_category_prompt question category
       (if context \<noteq> [] then context_header @ context_lines 1 context else [])"

subsection \<open>Concrete inputs\<close>

text \<open>
  Three questions: "how to solve a quadratic equation" (it holds the mathematics keyword
  U+BC29 U+C815 U+C2DD, equation), "how is the weather today?" (no keyword), and
  "physics formula" (a science keyword followed by a mathematics keyword).
\<close>

definition q_quadratic :: ustr where
  "q_quadratic =
     [0xC774, 0xCC28, 0xBC29, 0xC815, 0xC2DD, 0x20, 0xD480, 0xC774, 0x20, 0xBC29, 0xBC95]"

definition q_weather :: ustr where
  "q_weather =
     [0xC624, 0xB298, 0x20, 0xB0A0, 0xC528, 0x20, 0xC5B4, 0xB54C, 0xC694, 0x3F]"

definition q_both :: ustr where
  "q_both =
     [0xBB3C, 0xB9AC, 0x20, 0xACF5, 0xC2DD]"

definition svc_both :: RAGService where
  "svc_both = \<lparr>qa_database = None, openai_api_key = Some (asc ''sk-a''),
                claude_api_key = Some (asc ''sk-b'')\<rparr>"

definition svc_none :: RAGService where
  "svc_none = \<lparr>qa_database = None, openai_api_key = None, claude_api_key = None\<rparr>"

text \<open>Only the Claude key is configured: the OpenAI key is set to the empty string.\<close>

definition svc_claude_only :: RAGService where
  "svc_claude_only = \<lparr>qa_database = None, openai_api_key = Some [],
                       claude_api_key = Some (asc ''sk-b'')\<rparr>"

text \<open>Both keys are configured; the OpenAI key is one Hangul syllable (U+D0A4).\<close>

definition svc_hangul_key :: RAGService where
  "svc_hangul_key = \<lparr>qa_database = None, openai_api_key = Some [0xD0A4],
                      claude_api_key = Some (asc ''sk-b'')\<rparr>"

text \<open>A network on which OpenAI is unreachable and Claude answers, and one on which both fail.\<close>

definition net_openai_down :: network where
  "net_openai_down = \<lparr>post_openai = (\<lambda>prompt. TransportFailure),
                       post_claude = (\<lambda>prompt. Response 200 (Some (asc ''ok''))),
                       requests = []\<rparr>"

definition net_all_down :: network where
  "net_all_down = \<lparr>post_openai = (\<lambda>prompt. Response 500 None),
                    post_claude = (\<lambda>prompt. TransportFailure),
                    requests = []\<rparr>"

text \<open>A store with four entries on the same subject, and a context of four questions.\<close>

definition entry :: "string \<Rightarrow> string \<Rightarrow> QAEntry" where
  "entry i q = \<lparr>qa_id = asc i, qa_question = asc q, qa_answer = asc ''see the notes'',
               qa_category = asc ''general'', qa_created_at = asc ''2024-01-01'',
               qa_updated_at = asc ''2024-01-01'', qa_tags = [asc ''Loops'']\<rparr>"

definition store4 :: QADatabase where
  "store4 = \<lparr>db_file = asc ''demo_qa.json'',
              data = [(asc ''1'', entry ''1'' ''for loops''), (asc ''2'', entry ''2'' ''while loops''),
                      (asc ''3'', entry ''3'' ''nested LOOPS''), (asc ''4'', entry ''4'' ''loops and lists'')]\<rparr>"

definition context4 :: "ContextItem list" where
  "context4 = map (\<lambda>q. \<lparr>ctx_question = asc q, ctx_answer = asc ''a'', ctx_category = asc ''general'',
                          ctx_tags = []\<rparr>) [''q1'', ''q2'', ''q3'', ''q4'']"

section \<open>Properties of the category formatters\<close>

subsection \<open>Evaluating the patterns\<close>

lemmas pattern_defs = exponent_pattern_def operator_set_def letter_set_def alnum_set_def
  digit_set_def glyphs_def math_patterns_def

lemmas eval_defs = exponent_repl_def dollar_repl_def group_ref_def asc_def is_word_def is_space_def

lemma format_math_plain_sum: "format_math_answer U (asc ''a+b'') = asc ''$a+b$''"
  by (simp add: format_math_answer_def pattern_defs eval_defs)

lemma format_math_delimited_sum:
  "format_math_answer U (asc ''$a+b$'') = asc ''$$a+b$$''"
  "format_math_answer U (asc ''$$a+b$$'') = asc ''$$$a+b$$$''"
  by (simp_all add: format_math_answer_def pattern_defs eval_defs)

subsection \<open>C2: applying the mathematics formatter twice\<close>

text \<open>
  C2 does not hold of the code. The text \<open>$a+b$\<close> is in the form the formatter
  produces (it is what the formatter returns for \<open>a+b\<close>): an expression between
  inline-math delimiters. The wrapping pass, which the
  source describes as wrapping standalone expressions, does not look at the delimiters
  around \<open>a+b\<close>: the formatter returns \<open>$$a+b$$\<close>, and applied to that it returns
  \<open>$$$a+b$$$\<close>. Twice is not once.
\<close>

theorem format_math_not_idempotent:
  "str_in (asc ''$'') (asc ''$a+b$'') \<and>
   format_math_answer U (asc ''a+b'') = asc ''$a+b$'' \<and>
   format_math_answer U (asc ''$a+b$'') = asc ''$$a+b$$'' \<and>
   format_math_answer U (format_math_answer U (asc ''$a+b$'')) = asc ''$$$a+b$$$'' \<and>
   format_math_answer U (format_math_answer U (asc ''$a+b$'')) \<noteq>
     format_math_answer U (asc ''$a+b$'')"
  by (simp add: format_math_delimited_sum format_math_plain_sum) (simp add: asc_def)

subsection \<open>C7: the exponent rewrite on the literal input\<close>

text \<open>
  C7. For the input \<open>x**2 + y**2 = r**2\<close> the mathematics formatter returns
  \<open>$x^{2}$ + $y^{2}$ = $r^{2}$\<close>: each \<open>base**exp\<close> is rewritten into the caret form with
  braces and wrapped in the delimiter, so the output contains \<open>$x^{2}$\<close>.
\<close>

theorem format_math_exponent_example:
  "format_math_answer U (asc ''x**2 + y**2 = r**2'') = asc ''$x^{2}$ + $y^{2}$ = $r^{2}$'' \<and>
   str_in (asc ''$x^{2}$'') (format_math_answer U (asc ''x**2 + y**2 = r**2''))"
proof -
  have e: "format_math_answer U (asc ''x**2 + y**2 = r**2'') = asc ''$x^{2}$ + $y^{2}$ = $r^{2}$''"
    by (simp add: format_math_answer_def pattern_defs eval_defs)
  show ?thesis unfolding e by (simp add: asc_def)
qed

subsection \<open>C8: the code formatter on a fenced block\<close>

text \<open>
  C8 does not hold of the code. On a fenced block without a language tag the first pass
  inserts the default language, and the second pass then takes the last backtick of the
  opening fence and the first backtick of the closing fence for an inline span: of the
  block \<open>x = 1\<close> there remain two backticks, a \<open>code\<close> element around the language and
  the code, and two backticks. No fenced block is left in the output.
\<close>

theorem format_code_destroys_fence:
  "format_code_answer U ([tick, tick, tick, newline] @ asc ''x = 1'' @ [newline, tick, tick, tick])
     (asc ''python'') =
   [tick, tick] @ asc ''<code>python'' @ [newline] @ asc ''x = 1'' @ [newline] @ asc ''</code>'' @
   [tick, tick]"
  by (simp add: format_code_answer_def code_pattern_def inline_pattern_def replace_code_def
      inline_repl_def tick_def newline_def eval_defs)

section \<open>Properties of the classifier\<close>

lemma starts_with_append: "starts_with n (n @ y)"
  by (induction n) auto

lemma str_in_append: "str_in n (x @ n @ y)"
proof (induction x)
  case Nil
  show ?case by (cases "n @ y") (use starts_with_append[of n y] in auto)
next
  case (Cons a x)
  then show ?case by simp
qed

lemma lower_from_hangul:
  "\<forall>c\<in>set k. is_hangul c \<Longrightarrow> lower_from U b (k @ post) = k @ lower_from U (b @ k) post"
  by (induction k arbitrary: b) (auto simp: lower_at_def is_hangul_def)

lemma lower_from_keeps_hangul:
  "\<forall>c\<in>set k. is_hangul c \<Longrightarrow> \<exists>X Y. lower_from U b (pre @ k @ post) = X @ k @ Y"
proof (induction pre arbitrary: b)
  case Nil
  then show ?case using lower_from_hangul[of k U b post] by (metis append_Nil)
next
  case (Cons a pre)
  from Cons.IH[OF Cons.prems, of "b @ [a]"] obtain X Y
    where "lower_from U (b @ [a]) (pre @ k @ post) = X @ k @ Y" by blast
  then have "lower_from U b ((a # pre) @ k @ post) = (lower_at U b a (pre @ k @ post) @ X) @ k @ Y"
    by simp
  then show ?case by blast
qed

lemma str_in_lower_hangul:
  "\<forall>c\<in>set k. is_hangul c \<Longrightarrow> str_in k (lower U (pre @ k @ post))"
  using lower_from_keeps_hangul[of k U "[]" pre post] str_in_append unfolding lower_def by metis

lemma math_keywords_hangul: "kw \<in> set math_keywords \<Longrightarrow> \<forall>c\<in>set kw. is_hangul c"
  by (auto simp: math_keywords_def is_hangul_def)

lemma any_keyword_iff: "any_keyword kws s \<longleftrightarrow> (\<exists>k\<in>set kws. str_in k s)"
  by (simp add: any_keyword_def list_ex_iff)

lemma classify_math:
  "kw \<in> set math_keywords \<Longrightarrow> classify_question_category U (pre @ kw @ post) = cat_math"
  using str_in_lower_hangul[OF math_keywords_hangul, of kw U pre post]
  by (auto simp: classify_question_category_def Let_def any_keyword_iff)

lemma classify_refines: "classify_question_category U question = classify_spec U question"
  by (simp add: classify_question_category_def classify_spec_def category_table_def Let_def)

lemma classify_default:
  "(\<forall>(category, keywords)\<in>set category_table. \<not> any_keyword keywords (lower U question)) \<Longrightarrow>
   classify_question_category U question = cat_general"
  by (simp add: classify_question_category_def category_table_def Let_def)

lemma classify_spec_first:
  assumes "i < length category_table"
    and "any_keyword (snd (category_table ! i)) (lower U question)"
    and "\<forall>j<i. \<not> any_keyword (snd (category_table ! j)) (lower U question)"
  shows "classify_spec U question = fst (category_table ! i)"
proof -
  have "find (\<lambda>(category, keywords). any_keyword keywords (lower U question)) category_table
        = Some (category_table ! i)"
    unfolding find_Some_iff using assms by (auto simp: case_prod_beta)
  then show ?thesis by (simp add: classify_spec_def case_prod_beta)
qed

subsection \<open>C5: first match in the order of the category list\<close>

text \<open>
  C5. A question that holds a mathematics keyword anywhere (any text before and after it,
  in any case) is classified as mathematics. The classifier agrees with the first-match
  search over the ordered list (mathematics, science, programming, Korean, English): when
  keywords of several categories occur, the category earliest in the list is returned, and
  when no keyword occurs the default category "general" is returned.
\<close>

theorem classify_first_match:
  "(kw \<in> set math_keywords \<longrightarrow> classify_question_category U (pre @ kw @ post) = cat_math) \<and>
   classify_question_category U question = classify_spec U question \<and>
   (i < length category_table \<and> any_keyword (snd (category_table ! i)) (lower U question) \<and>
    (\<forall>j<i. \<not> any_keyword (snd (category_table ! j)) (lower U question)) \<longrightarrow>
      classify_question_category U question = fst (category_table ! i)) \<and>
   ((\<forall>(category, keywords)\<in>set category_table. \<not> any_keyword keywords (lower U question)) \<longrightarrow>
      classify_question_category U question = cat_general)"
  using classify_math classify_refines classify_default classify_spec_first by metis

lemmas keyword_defs = math_keywords_def science_keywords_def programming_keywords_def
  korean_keywords_def english_keywords_def category_table_def
  cat_math_def cat_science_def cat_programming_def cat_korean_def cat_english_def cat_general_def

lemma lower_weather: "lower ascii_ucd q_weather = q_weather"
  by (simp add: lower_def q_weather_def lower_at_def is_hangul_def ascii_ucd_def)

lemma lower_both: "lower ascii_ucd q_both = q_both"
  by (simp add: lower_def q_both_def lower_at_def is_hangul_def ascii_ucd_def)

text \<open>
  C5 at three questions: one with a mathematics keyword inside a word, one with a science
  keyword before a mathematics keyword, and one without a keyword.
\<close>

theorem classify_examples:
  "classify_question_category ascii_ucd q_quadratic = cat_math \<and>
   classify_question_category ascii_ucd q_both = cat_math \<and>
   classify_question_category ascii_ucd q_weather = cat_general"
proof -
  have q: "q_quadratic =
      [0xC774, 0xCC28] @ [0xBC29, 0xC815, 0xC2DD] @ [0x20, 0xD480, 0xC774, 0x20, 0xBC29, 0xBC95]"
    by (simp add: q_quadratic_def)
  have k: "[0xBC29, 0xC815, 0xC2DD] \<in> set math_keywords" by (simp add: math_keywords_def)
  have a: "classify_question_category ascii_ucd q_quadratic = cat_math"
    unfolding q
    by (rule classify_first_match[of "[0xBC29, 0xC815, 0xC2DD]" ascii_ucd, THEN conjunct1,
          rule_format, OF k])
  have i: "(0::nat) < length category_table" by (simp add: category_table_def)
  have m: "any_keyword (snd (category_table ! 0)) (lower ascii_ucd q_both)"
    unfolding lower_both by (simp add: keyword_defs any_keyword_def q_both_def)
  have "classify_question_category ascii_ucd q_both = fst (category_table ! 0)"
    using classify_first_match[of _ ascii_ucd _ _ q_both 0, THEN conjunct2, THEN conjunct2,
        THEN conjunct1] i m by simp
  then have b: "classify_question_category ascii_ucd q_both = cat_math"
    by (simp add: category_table_def)
  have n: "\<forall>(category, keywords)\<in>set category_table.
             \<not> any_keyword keywords (lower ascii_ucd q_weather)"
    unfolding lower_weather by (simp add: keyword_defs any_keyword_def q_weather_def)
  have c: "classify_question_category ascii_ucd q_weather = cat_general"
    using classify_first_match[of _ ascii_ucd _ _ q_weather, THEN conjunct2, THEN conjunct2,
        THEN conjunct2] n by blast
  from a b c show ?thesis by blast
qed

section \<open>Properties of the retriever\<close>

lemma search_qa_empty_store: "data db = [] \<Longrightarrow> search_qa U db query category = []"
  by (simp add: search_qa_def)

subsection \<open>C6: at most three context items\<close>

text \<open>
  C6. The retriever returns at most three items, the first three that the store's search
  yields, in its order. Without a store the result is empty, and so it is when the search
  finds nothing or the store holds no entry. The function has no step that raises: the
  result is a list in every case.
\<close>

theorem search_relevant_qa_bounded:
  "length (search_relevant_qa U svc question category) \<le> 3 \<and>
   (qa_database svc = None \<longrightarrow> search_relevant_qa U svc question category = []) \<and>
   (qa_database svc = Some db \<longrightarrow>
      map ctx_question (search_relevant_qa U svc question category) =
        take 3 (map qa_question (search_qa U db question category))) \<and>
   (qa_database svc = Some db \<and> search_qa U db question category = [] \<longrightarrow>
      search_relevant_qa U svc question category = []) \<and>
   (qa_database svc = Some db \<and> data db = [] \<longrightarrow>
      search_relevant_qa U svc question category = [])"
  by (auto simp: search_relevant_qa_def search_qa_empty_store take_map comp_def
      split: option.splits)

lemmas store_defs = store4_def entry_def search_qa_def lower_def lower_at_def is_hangul_def asc_def
  Let_def

text \<open>
  C6 at the store of four entries that all match the query \<open>loops\<close>, at a query that
  matches none, at an empty store and without a store.
\<close>

theorem search_relevant_qa_examples:
  "map ctx_question (search_relevant_qa ascii_ucd (svc_none\<lparr>qa_database := Some store4\<rparr>)
      (asc ''Loops'') None) = [asc ''for loops'', asc ''while loops'', asc ''nested LOOPS''] \<and>
   search_relevant_qa ascii_ucd (svc_none\<lparr>qa_database := Some store4\<rparr>) (asc ''tree'') None = [] \<and>
   search_relevant_qa ascii_ucd (svc_none\<lparr>qa_database := Some (store4\<lparr>data := []\<rparr>)\<rparr>)
      (asc ''Loops'') None = [] \<and>
   search_relevant_qa ascii_ucd svc_none (asc ''Loops'') None = []"
proof -
  let ?svc = "svc_none\<lparr>qa_database := Some store4\<rparr>"
  let ?emp = "svc_none\<lparr>qa_database := Some (store4\<lparr>data := []\<rparr>)\<rparr>"
  have d: "qa_database ?svc = Some store4" by simp
  have d0: "qa_database ?emp = Some (store4\<lparr>data := []\<rparr>) \<and> data (store4\<lparr>data := []\<rparr>) = []"
    by simp
  have dn: "qa_database svc_none = None" by (simp add: svc_none_def)
  have s1: "take 3 (map qa_question (search_qa ascii_ucd store4 (asc ''Loops'') None)) =
            [asc ''for loops'', asc ''while loops'', asc ''nested LOOPS'']"
    by (simp add: store_defs)
  have s2: "search_qa ascii_ucd store4 (asc ''tree'') None = []"
    by (simp add: store_defs)
  have a: "map ctx_question (search_relevant_qa ascii_ucd ?svc (asc ''Loops'') None) =
           [asc ''for loops'', asc ''while loops'', asc ''nested LOOPS'']"
    using search_relevant_qa_bounded[of ascii_ucd ?svc "asc ''Loops''" None store4] d s1 by simp
  have b: "search_relevant_qa ascii_ucd ?svc (asc ''tree'') None = []"
    using search_relevant_qa_bounded[of ascii_ucd ?svc "asc ''tree''" None store4] d s2 by blast
  have c: "search_relevant_qa ascii_ucd ?emp (asc ''Loops'') None = []"
    using search_relevant_qa_bounded[of ascii_ucd ?emp "asc ''Loops''" None "store4\<lparr>data := []\<rparr>"] d0
    by blast
  have e: "search_relevant_qa ascii_ucd svc_none (asc ''Loops'') None = []"
    using search_relevant_qa_bounded[of ascii_ucd svc_none "asc ''Loops''" None] dn by blast
  from a b c e show ?thesis by blast
qed

section \<open>Properties of the formatting stage\<close>

lemmas category_defs = cat_math_def cat_science_def cat_programming_def cat_korean_def
  cat_english_def cat_general_def

subsection \<open>C9: only the formatter of the category is applied\<close>

text \<open>
  C9. For every category other than mathematics and programming the formatting stage
  returns the answer unchanged; for mathematics it applies the mathematics formatter and
  for programming the code formatter with the default language, and nothing else.
\<close>

theorem ask_ai_format_dispatch:
  "(category \<noteq> cat_math \<and> category \<noteq> cat_programming \<longrightarrow>
      ask_ai_format U category ai_answer = ai_answer) \<and>
   ask_ai_format U cat_math ai_answer = format_math_answer U ai_answer \<and>
   ask_ai_format U cat_programming ai_answer = format_code_answer U ai_answer default_language"
  by (simp add: ask_ai_format_def category_defs)

text \<open>
  C9 at the science category and the text \<open>$a+b$\<close>, which the mathematics formatter
  would change.
\<close>

theorem ask_ai_format_science_example:
  "ask_ai_format ascii_ucd cat_science (asc ''$a+b$'') = asc ''$a+b$'' \<and>
   ask_ai_format ascii_ucd cat_math (asc ''$a+b$'') = asc ''$$a+b$$''"
proof -
  have n: "cat_science \<noteq> cat_math \<and> cat_science \<noteq> cat_programming"
    by (simp add: category_defs)
  from ask_ai_format_dispatch[of cat_science ascii_ucd "asc ''$a+b$''"] n
  show ?thesis by (simp add: format_math_delimited_sum)
qed

section \<open>Properties of the answer generator\<close>

lemma fallback_lookup:
  "(case fallback_responses category of Some template \<Rightarrow> template | None \<Rightarrow> fallback_general) =
   fallback_template category"
  by (simp add: fallback_responses_def fallback_template_def category_defs)

lemma fallback_dom:
  "dom fallback_responses = {cat_math, cat_science, cat_programming, cat_general}"
  by (auto simp: fallback_responses_def category_defs split: if_splits)

lemma join_footer_lines: "join [newline] (map (\<lambda>q. asc ''- '' @ q) qs) = footer_lines qs"
  by (induction qs rule: footer_lines.induct) simp_all

lemma related_footer_lines: "related_footer qs = sources_header @ footer_lines qs"
  by (simp add: related_footer_def join_footer_lines)

lemma footer_lines_holds:
  "q \<in> set qs \<Longrightarrow> \<exists>X Y. footer_lines qs = X @ (asc ''- '' @ q) @ Y"
proof (induction qs rule: footer_lines.induct)
  case 1
  then show ?case by simp
next
  case (2 q0)
  then have "footer_lines [q0] = [] @ (asc ''- '' @ q) @ []" by simp
  then show ?case by blast
next
  case (3 q0 q1 qs)
  show ?case
  proof (cases "q = q0")
    case True
    then have "footer_lines (q0 # q1 # qs) =
        [] @ (asc ''- '' @ q) @ ([newline] @ footer_lines (q1 # qs))" by simp
    then show ?thesis by blast
  next
    case False
    with 3 obtain X Y where "footer_lines (q1 # qs) = X @ (asc ''- '' @ q) @ Y" by auto
    then have "footer_lines (q0 # q1 # qs) =
        (asc ''- '' @ q0 @ [newline] @ X) @ (asc ''- '' @ q) @ Y" by simp
    then show ?thesis by blast
  qed
qed

lemma generate_fallback_answer_fields:
  "r_answer (generate_fallback_answer question category srcs) =
     fallback_template category @ (if srcs = [] then [] else related_footer (take 3 srcs))"
  "r_confidence (generate_fallback_answer question category srcs) = 6 / 10"
  "r_category (generate_fallback_answer question category srcs) = category"
  "r_sources (generate_fallback_answer question category srcs) = srcs"
  "r_reasoning (generate_fallback_answer question category srcs) = fallback_reasoning"
  by (simp_all add: generate_fallback_answer_def Let_def fallback_lookup related_footer_def)

lemma fallback_answer_holds_question:
  assumes "q \<in> set (take 3 srcs)"
  shows "str_in (asc ''- '' @ q) (r_answer (generate_fallback_answer question category srcs))"
proof -
  from assms have ne: "srcs \<noteq> []" by auto
  from footer_lines_holds[OF assms] obtain X Y
    where f: "footer_lines (take 3 srcs) = X @ (asc ''- '' @ q) @ Y" by blast
  have "r_answer (generate_fallback_answer question category srcs) =
        (fallback_template category @ sources_header @ X) @ (asc ''- '' @ q) @ Y"
    using ne f by (simp add: generate_fallback_answer_fields related_footer_lines)
  then show ?thesis using str_in_append by metis
qed

lemma call_openai_log:
  "fst (call_openai svc net prompt category srcs) =
     (if openai_sent svc net prompt then net\<lparr>requests := requests net @ [OpenAI]\<rparr> else net)"
  by (simp add: call_openai_def openai_sent_def Let_def split: http_result.splits option.splits)

lemma call_claude_log:
  "fst (call_claude svc net prompt category srcs) =
     (if claude_sent svc net prompt then net\<lparr>requests := requests net @ [Claude]\<rparr> else net)"
  by (simp add: call_claude_def claude_sent_def Let_def split: http_result.splits option.splits)

lemma call_openai_fails:
  "openai_fails svc net prompt \<Longrightarrow> \<exists>e. snd (call_openai svc net prompt category srcs) = Inl e"
  by (auto simp: call_openai_def openai_fails_def Let_def split: http_result.splits option.splits)

lemma call_claude_fails:
  "claude_fails svc net prompt \<Longrightarrow> \<exists>e. snd (call_claude svc net prompt category srcs) = Inl e"
  by (auto simp: call_claude_def claude_fails_def Let_def split: http_result.splits option.splits)

lemma generate_unfold:
  "generate_ai_answer svc net question category context =
     (let srcs = map ctx_question context;
          prompt = prompt_of question category context;
          tried = (if configured (openai_api_key svc) then call_openai svc net prompt category srcs
                   else if configured (claude_api_key svc) then call_claude svc net prompt category srcs
                   else (net, Inr (generate_fallback_answer question category srcs)))
      in (fst tried,
          case snd tried of
            Inl e \<Rightarrow> Inr (generate_fallback_answer question category srcs)
          | Inr response \<Rightarrow> Inr response))"
  unfolding generate_ai_answer_def Let_def prompt_of_def case_prod_beta
  by (simp split: sum.splits split del: if_split)

lemma generate_openai:
  "configured (openai_api_key svc) \<Longrightarrow>
   generate_ai_answer svc net question category context =
     (fst (call_openai svc net (prompt_of question category context) category (map ctx_question context)),
      case snd (call_openai svc net (prompt_of question category context) category
                  (map ctx_question context)) of
        Inl e \<Rightarrow> Inr (generate_fallback_answer question category (map ctx_question context))
      | Inr response \<Rightarrow> Inr response)"
  by (simp add: generate_unfold Let_def)

lemma generate_claude:
  "\<not> configured (openai_api_key svc) \<Longrightarrow> configured (claude_api_key svc) \<Longrightarrow>
   generate_ai_answer svc net question category context =
     (fst (call_claude svc net (prompt_of question category context) category (map ctx_question context)),
      case snd (call_claude svc net (prompt_of question category context) category
                  (map ctx_question context)) of
        Inl e \<Rightarrow> Inr (generate_fallback_answer question category (map ctx_question context))
      | Inr response \<Rightarrow> Inr response)"
  by (simp add: generate_unfold Let_def)

lemma generate_neither:
  "\<not> configured (openai_api_key svc) \<Longrightarrow> \<not> configured (claude_api_key svc) \<Longrightarrow>
   generate_ai_answer svc net question category context =
     (net, Inr (generate_fallback_answer question category (map ctx_question context)))"
  by (simp add: generate_unfold Let_def)

lemma generate_returns:
  "\<exists>r. snd (generate_ai_answer svc net question category context) = Inr r"
  by (cases "configured (openai_api_key svc)"; cases "configured (claude_api_key svc)")
     (simp_all add: generate_openai generate_claude generate_neither split: sum.splits)

lemmas service_defs = svc_both_def svc_none_def svc_claude_only_def svc_hangul_key_def
  configured_def net_openai_down_def net_all_down_def

lemmas call_defs = openai_sent_def openai_fails_def claude_sent_def claude_fails_def
  header_value_ok_def authorization_def x_api_key_ok_def

subsection \<open>C1: which provider is tried\<close>

text \<open>
  C1, as stated, fails. With both keys configured, OpenAI unreachable and Claude ready
  to answer, the generator sends one request, to OpenAI, and returns the templated
  fallback: Claude is not tried.
\<close>

theorem generate_skips_claude_after_openai_failure:
  "configured (openai_api_key svc_both) \<and> configured (claude_api_key svc_both) \<and>
   \<not> succeeds (post_openai net_openai_down (prompt_of q_weather cat_general [])) \<and>
   succeeds (post_claude net_openai_down (prompt_of q_weather cat_general [])) \<and>
   generate_ai_answer svc_both net_openai_down q_weather cat_general [] =
     (net_openai_down\<lparr>requests := [OpenAI]\<rparr>,
      Inr (generate_fallback_answer q_weather cat_general []))"
  by (simp add: generate_unfold Let_def call_openai_def service_defs call_defs asc_def)

text \<open>
  C1, amended. The generator calls one provider, the first whose key is configured, with
  the prompt it has built. With the OpenAI key configured it calls OpenAI only: at most
  one request goes out, to OpenAI (none when the key cannot be encoded as a header or the
  client fails before sending), and when that call fails it returns the templated fallback
  without trying Claude, whether or not the Claude key is configured. Claude is called,
  in the same way, only when the OpenAI key is not configured and the Claude key is. With
  neither key no request is made and the fallback is returned.
\<close>

theorem generate_tries_first_configured_only:
  "(configured (openai_api_key svc) \<longrightarrow>
      requests (fst (generate_ai_answer svc net question category context)) =
        requests net @
          (if openai_sent svc net (prompt_of question category context) then [OpenAI] else []) \<and>
      (openai_fails svc net (prompt_of question category context) \<longrightarrow>
        snd (generate_ai_answer svc net question category context) =
          Inr (generate_fallback_answer question category (map ctx_question context)))) \<and>
   (\<not> configured (openai_api_key svc) \<and> configured (claude_api_key svc) \<longrightarrow>
      requests (fst (generate_ai_answer svc net question category context)) =
        requests net @
          (if claude_sent svc net (prompt_of question category context) then [Claude] else []) \<and>
      (claude_fails svc net (prompt_of question category context) \<longrightarrow>
        snd (generate_ai_answer svc net question category context) =
          Inr (generate_fallback_answer question category (map ctx_question context)))) \<and>
   (\<not> configured (openai_api_key svc) \<and> \<not> configured (claude_api_key svc) \<longrightarrow>
      generate_ai_answer svc net question category context =
        (net, Inr (generate_fallback_answer question category (map ctx_question context))))"
proof (intro conjI impI)
  assume a: "configured (openai_api_key svc)"
  show "requests (fst (generate_ai_answer svc net question category context)) =
      requests net @
        (if openai_sent svc net (prompt_of question category context) then [OpenAI] else [])"
    by (simp add: generate_openai[OF a] call_openai_log)
  assume "openai_fails svc net (prompt_of question category context)"
  then obtain e where "snd (call_openai svc net (prompt_of question category context) category
      (map ctx_question context)) = Inl e"
    using call_openai_fails by blast
  then show "snd (generate_ai_answer svc net question category context) =
      Inr (generate_fallback_answer question category (map ctx_question context))"
    by (simp add: generate_openai[OF a])
next
  assume "\<not> configured (openai_api_key svc) \<and> configured (claude_api_key svc)"
  then have a: "\<not> configured (openai_api_key svc)" and b: "configured (claude_api_key svc)"
    by simp_all
  show "requests (fst (generate_ai_answer svc net question category context)) =
      requests net @
        (if claude_sent svc net (prompt_of question category context) then [Claude] else [])"
    by (simp add: generate_claude[OF a b] call_claude_log)
  assume "claude_fails svc net (prompt_of question category context)"
  then obtain e where "snd (call_claude svc net (prompt_of question category context) category
      (map ctx_question context)) = Inl e"
    using call_claude_fails by blast
  then show "snd (generate_ai_answer svc net question category context) =
      Inr (generate_fallback_answer question category (map ctx_question context))"
    by (simp add: generate_claude[OF a b])
next
  assume "\<not> configured (openai_api_key svc) \<and> \<not> configured (claude_api_key svc)"
  then show "generate_ai_answer svc net question category context =
      (net, Inr (generate_fallback_answer question category (map ctx_question context)))"
    by (simp add: generate_neither)
qed

text \<open>
  The amended C1 with both keys and OpenAI answering with status 500; with both keys, the
  OpenAI key a Hangul syllable and Claude ready to answer; with the Claude key alone (the
  OpenAI key is the empty string) and Claude unreachable; and with no key.
\<close>

theorem generate_tries_first_configured_examples:
  "requests (fst (generate_ai_answer svc_both net_all_down q_weather cat_general context4)) = [OpenAI] \<and>
   snd (generate_ai_answer svc_both net_all_down q_weather cat_general context4) =
     Inr (generate_fallback_answer q_weather cat_general (map ctx_question context4)) \<and>
   requests (fst (generate_ai_answer svc_hangul_key net_openai_down q_weather cat_general context4)) = [] \<and>
   snd (generate_ai_answer svc_hangul_key net_openai_down q_weather cat_general context4) =
     Inr (generate_fallback_answer q_weather cat_general (map ctx_question context4)) \<and>
   requests (fst (generate_ai_answer svc_claude_only net_all_down q_weather cat_general context4)) =
     [Claude] \<and>
   snd (generate_ai_answer svc_claude_only net_all_down q_weather cat_general context4) =
     Inr (generate_fallback_answer q_weather cat_general (map ctx_question context4)) \<and>
   generate_ai_answer svc_none net_all_down q_weather cat_general context4 =
     (net_all_down, Inr (generate_fallback_answer q_weather cat_general (map ctx_question context4)))"
proof -
  let ?P = "prompt_of q_weather cat_general context4"
  have a: "configured (openai_api_key svc_both)" by (simp add: service_defs asc_def)
  have h: "configured (openai_api_key svc_hangul_key)" by (simp add: service_defs)
  have b: "\<not> configured (openai_api_key svc_claude_only) \<and> configured (claude_api_key svc_claude_only)"
    by (simp add: service_defs asc_def)
  have c: "\<not> configured (openai_api_key svc_none) \<and> \<not> configured (claude_api_key svc_none)"
    by (simp add: service_defs)
  have sa: "openai_sent svc_both net_all_down ?P" and fa: "openai_fails svc_both net_all_down ?P"
    by (simp_all add: service_defs call_defs asc_def)
  have sh: "\<not> openai_sent svc_hangul_key net_openai_down ?P"
    and fh: "openai_fails svc_hangul_key net_openai_down ?P"
    by (simp_all add: service_defs call_defs asc_def)
  have sb: "claude_sent svc_claude_only net_all_down ?P"
    and fb: "claude_fails svc_claude_only net_all_down ?P"
    by (simp_all add: service_defs call_defs asc_def)
  have r: "requests net_all_down = []" "requests net_openai_down = []"
    by (simp_all add: service_defs)
  note t = generate_tries_first_configured_only[of _ _ q_weather cat_general context4]
  from t[of svc_both net_all_down, THEN conjunct1, rule_format, OF a] sa fa r
  have 1: "requests (fst (generate_ai_answer svc_both net_all_down q_weather cat_general context4)) = [OpenAI]"
    and 2: "snd (generate_ai_answer svc_both net_all_down q_weather cat_general context4) =
     Inr (generate_fallback_answer q_weather cat_general (map ctx_question context4))"
    by simp_all
  from t[of svc_hangul_key net_openai_down, THEN conjunct1, rule_format, OF h] sh fh r
  have 3: "requests (fst (generate_ai_answer svc_hangul_key net_openai_down q_weather cat_general context4)) = []"
    and 4: "snd (generate_ai_answer svc_hangul_key net_openai_down q_weather cat_general context4) =
     Inr (generate_fallback_answer q_weather cat_general (map ctx_question context4))"
    by simp_all
  from t[of svc_claude_only net_all_down, THEN conjunct2, THEN conjunct1, rule_format, OF b] sb fb r
  have 5: "requests (fst (generate_ai_answer svc_claude_only net_all_down q_weather cat_general context4)) = [Claude]"
    and 6: "snd (generate_ai_answer svc_claude_only net_all_down q_weather cat_general context4) =
     Inr (generate_fallback_answer q_weather cat_general (map ctx_question context4))"
    by simp_all
  from t[of svc_none net_all_down, THEN conjunct2, THEN conjunct2, rule_format, OF c]
  have 7: "generate_ai_answer svc_none net_all_down q_weather cat_general context4 =
     (net_all_down, Inr (generate_fallback_answer q_weather cat_general (map ctx_question context4)))" .
  from 1 2 3 4 5 6 7 show ?thesis by blast
qed

subsection \<open>C3: the answer without providers\<close>

text \<open>
  C3. When neither key is configured, for every question, category and context the
  generator makes no request and returns an answer with confidence 0.6 and the reasoning
  string of the template path. Its text is the template of the category, followed, when
  the context is not empty, by the header of the footer and one line for each of the
  first three context items (at most three), holding a dash, a blank and the question text
  as it is; so each of these question texts occurs in the answer.
\<close>

theorem generate_without_providers:
  "\<not> configured (openai_api_key svc) \<Longrightarrow> \<not> configured (claude_api_key svc) \<Longrightarrow>
   \<exists>r. generate_ai_answer svc net question category context = (net, Inr r) \<and>
       r_confidence r = 6 / 10 \<and> r_reasoning r = fallback_reasoning \<and>
       r_category r = category \<and> r_sources r = map ctx_question context \<and>
       r_answer r = fallback_template category @
         (if context = [] then []
          else sources_header @ footer_lines (take 3 (map ctx_question context))) \<and>
       (\<forall>q\<in>set (take 3 (map ctx_question context)). str_in (asc ''- '' @ q) (r_answer r))"
  using fallback_answer_holds_question[of _ "map ctx_question context" question category]
  by (simp add: generate_neither generate_fallback_answer_fields related_footer_lines)

text \<open>
  C3 at a question without keyword, the general category and a context of four items: the
  footer lists the first three questions, each on a line of its own.
\<close>

theorem generate_without_providers_example:
  "generate_ai_answer svc_none net_all_down q_weather cat_general context4 =
     (net_all_down,
      Inr \<lparr>r_answer = fallback_general @ sources_header @
                       asc ''- q1'' @ [newline] @ asc ''- q2'' @ [newline] @ asc ''- q3'',
           r_confidence = 6 / 10, r_category = cat_general,
           r_sources = [asc ''q1'', asc ''q2'', asc ''q3'', asc ''q4''],
           r_reasoning = fallback_reasoning\<rparr>)"
proof -
  have a: "\<not> configured (openai_api_key svc_none)" and b: "\<not> configured (claude_api_key svc_none)"
    by (simp_all add: service_defs)
  from generate_without_providers[OF a b, of net_all_down q_weather cat_general context4]
  obtain r where g: "generate_ai_answer svc_none net_all_down q_weather cat_general context4 =
      (net_all_down, Inr r)"
    and f: "r_confidence r = 6 / 10" "r_reasoning r = fallback_reasoning"
      "r_category r = cat_general" "r_sources r = map ctx_question context4"
      "r_answer r = fallback_template cat_general @
         (if context4 = [] then []
          else sources_header @ footer_lines (take 3 (map ctx_question context4)))"
    by blast
  have "r = \<lparr>r_answer = fallback_general @ sources_header @
                       asc ''- q1'' @ [newline] @ asc ''- q2'' @ [newline] @ asc ''- q3'',
           r_confidence = 6 / 10, r_category = cat_general,
           r_sources = [asc ''q1'', asc ''q2'', asc ''q3'', asc ''q4''],
           r_reasoning = fallback_reasoning\<rparr>"
    using f by (cases r) (simp add: context4_def fallback_template_def category_defs asc_def)
  with g show ?thesis by simp
qed

subsection \<open>C4: a provider that always fails\<close>

text \<open>
  C4. When a key is configured and every provider call fails (transport failure, a status
  other than 200, or a body without the text), the generator returns the same answer as
  with no key configured. The handler of the generator catches every exception of a
  provider call: in every case the result is a response, never an exception.
\<close>

theorem generate_failing_provider_is_fallback:
  "configured (openai_api_key svc) \<or> configured (claude_api_key svc) \<Longrightarrow>
   \<forall>p. \<not> succeeds (post_openai net p) \<Longrightarrow> \<forall>p. \<not> succeeds (post_claude net p) \<Longrightarrow>
   snd (generate_ai_answer svc net question category context) =
     snd (generate_ai_answer (svc\<lparr>openai_api_key := None, claude_api_key := None\<rparr>) net
            question category context) \<and>
   (\<exists>r. snd (generate_ai_answer svc net question category context) = Inr r)"
proof -
  assume k: "configured (openai_api_key svc) \<or> configured (claude_api_key svc)"
    and fo: "\<forall>p. \<not> succeeds (post_openai net p)" and fc: "\<forall>p. \<not> succeeds (post_claude net p)"
  let ?fb = "Inr (generate_fallback_answer question category (map ctx_question context))
               :: py_exception + AIResponse"
  have n: "snd (generate_ai_answer (svc\<lparr>openai_api_key := None, claude_api_key := None\<rparr>) net
            question category context) = ?fb"
    by (simp add: generate_neither configured_def)
  have "snd (generate_ai_answer svc net question category context) = ?fb"
  proof (cases "configured (openai_api_key svc)")
    case True
    have "openai_fails svc net (prompt_of question category context)"
      using fo by (simp add: openai_fails_def)
    then obtain e where "snd (call_openai svc net (prompt_of question category context) category
        (map ctx_question context)) = Inl e"
      using call_openai_fails by blast
    then show ?thesis by (simp add: generate_openai[OF True])
  next
    case False
    with k have c: "configured (claude_api_key svc)" by simp
    have "claude_fails svc net (prompt_of question category context)"
      using fc by (simp add: claude_fails_def)
    then obtain e where "snd (call_claude svc net (prompt_of question category context) category
        (map ctx_question context)) = Inl e"
      using call_claude_fails by blast
    then show ?thesis by (simp add: generate_claude[OF False c])
  qed
  with n show ?thesis by simp
qed

text \<open>C4 with both keys configured, OpenAI answering with status 500 and Claude unreachable.\<close>

theorem generate_failing_provider_example:
  "snd (generate_ai_answer svc_both net_all_down q_quadratic cat_math context4) =
   snd (generate_ai_answer svc_none net_all_down q_quadratic cat_math context4)"
proof -
  have k: "configured (openai_api_key svc_both) \<or> configured (claude_api_key svc_both)"
    by (simp add: service_defs asc_def)
  have fo: "\<forall>p. \<not> succeeds (post_openai net_all_down p)" by (simp add: service_defs)
  have fc: "\<forall>p. \<not> succeeds (post_claude net_all_down p)" by (simp add: service_defs)
  have s: "svc_both\<lparr>openai_api_key := None, claude_api_key := None\<rparr> = svc_none"
    by (simp add: service_defs)
  from generate_failing_provider_is_fallback[OF k fo fc, of q_quadratic cat_math context4]
  show ?thesis unfolding s by blast
qed

subsection \<open>C10: categories without a template\<close>

text \<open>
  C10. The table of fallback templates has entries for exactly four labels: mathematics,
  science, programming and general. For every other category, among them Korean and
  English, the fallback answer starts with the general template (followed by the footer
  when there are sources), and the answer still reports the category it was given.
\<close>

theorem fallback_uses_general_template:
  "dom fallback_responses = {cat_math, cat_science, cat_programming, cat_general} \<and>
   cat_korean \<notin> dom fallback_responses \<and> cat_english \<notin> dom fallback_responses \<and>
   (category \<notin> dom fallback_responses \<longrightarrow>
      r_answer (generate_fallback_answer question category srcs) =
        fallback_general @ (if srcs = [] then [] else related_footer (take 3 srcs)) \<and>
      r_category (generate_fallback_answer question category srcs) = category)"
proof -
  have "fallback_template category = fallback_general" if "category \<notin> dom fallback_responses"
    using that by (auto simp: fallback_dom fallback_template_def)
  moreover have "cat_korean \<notin> dom fallback_responses" "cat_english \<notin> dom fallback_responses"
    by (simp_all add: fallback_dom) (simp_all add: category_defs)
  ultimately show ?thesis by (simp add: fallback_dom generate_fallback_answer_fields)
qed

text \<open>C10 at the Korean and the English category, without sources.\<close>

theorem fallback_uses_general_template_example:
  "r_answer (generate_fallback_answer q_weather cat_korean []) = fallback_general \<and>
   r_category (generate_fallback_answer q_weather cat_korean []) = cat_korean \<and>
   r_answer (generate_fallback_answer q_weather cat_english []) = fallback_general \<and>
   r_category (generate_fallback_answer q_weather cat_english []) = cat_english"
  using fallback_uses_general_template[of cat_korean q_weather "[]"]
    fallback_uses_general_template[of cat_english q_weather "[]"] by simp

end
